theory Spec2Isabelle
  imports Complex_Main
begin

section \<open>JavaScript numbers\<close>

text \<open>
  The clustering utilities of \<^verbatim>\<open>src/utils/clustering.ts\<close> compute with JavaScript
  numbers. A number is modelled as a finite real, one of the two infinities, or NaN.
  The special values follow IEEE 754 (\<open>0/0\<close>, \<open>Infinity - Infinity\<close> and
  \<open>Infinity/Infinity\<close> are NaN, every comparison with NaN is false, NaN is falsy).

  A sum, product or quotient of finite values overflows as in binary64: the largest
  double is \<open>2^1024 - 2^971\<close>, and a result whose magnitude reaches the midpoint
  \<open>2^1024 - 2^970\<close> between it and \<open>2^1024\<close> is rounded to an infinity. Below that bound
  the result is kept exact: the rounding to 53 bits and the underflow of binary64 are
  outside the model, and so is the sign of zero (the code never divides a non-zero value
  by a zero that could be negative).
\<close>

datatype jsnum = Fin real | PInf | NInf | NaN

definition overflow_bound :: real where
  "overflow_bound = 2 ^ 1024 - 2 ^ 970"

definition fl :: "real \<Rightarrow> jsnum" where
  "fl x = (if overflow_bound \<le> x then PInf
          else if x \<le> - overflow_bound then NInf
          else Fin x)"

fun js_neg :: "jsnum \<Rightarrow> jsnum" where
  "js_neg (Fin x) = Fin (- x)"
| "js_neg PInf = NInf"
| "js_neg NInf = PInf"
| "js_neg NaN = NaN"

fun js_add :: "jsnum \<Rightarrow> jsnum \<Rightarrow> jsnum" where
  "js_add (Fin x) (Fin y) = fl (x + y)"
| "js_add NaN _ = NaN"
| "js_add _ NaN = NaN"
| "js_add PInf NInf = NaN"
| "js_add NInf PInf = NaN"
| "js_add PInf _ = PInf"
| "js_add _ PInf = PInf"
| "js_add NInf _ = NInf"
| "js_add _ NInf = NInf"

definition js_sub :: "jsnum \<Rightarrow> jsnum \<Rightarrow> jsnum" where
  "js_sub a b = js_add a (js_neg b)"

fun js_mul :: "jsnum \<Rightarrow> jsnum \<Rightarrow> jsnum" where
  "js_mul (Fin x) (Fin y) = fl (x * y)"
| "js_mul NaN _ = NaN"
| "js_mul _ NaN = NaN"
| "js_mul (Fin x) PInf = (if x = 0 then NaN else if 0 < x then PInf else NInf)"
| "js_mul (Fin x) NInf = (if x = 0 then NaN else if 0 < x then NInf else PInf)"
| "js_mul PInf (Fin y) = (if y = 0 then NaN else if 0 < y then PInf else NInf)"
| "js_mul NInf (Fin y) = (if y = 0 then NaN else if 0 < y then NInf else PInf)"
| "js_mul PInf PInf = PInf"
| "js_mul NInf NInf = PInf"
| "js_mul PInf NInf = NInf"
| "js_mul NInf PInf = NInf"

fun js_div :: "jsnum \<Rightarrow> jsnum \<Rightarrow> jsnum" where
  "js_div (Fin x) (Fin y) =
     (if y = 0 then (if x = 0 then NaN else if 0 < x then PInf else NInf)
      else fl (x / y))"
| "js_div NaN _ = NaN"
| "js_div _ NaN = NaN"
| "js_div (Fin x) PInf = Fin 0"
| "js_div (Fin x) NInf = Fin 0"
| "js_div PInf (Fin y) = (if 0 \<le> y then PInf else NInf)"
| "js_div NInf (Fin y) = (if 0 \<le> y then NInf else PInf)"
| "js_div PInf PInf = NaN"
| "js_div PInf NInf = NaN"
| "js_div NInf PInf = NaN"
| "js_div NInf NInf = NaN"

text \<open>\<^verbatim>\<open>Math.sqrt\<close>.\<close>

fun Math_sqrt :: "jsnum \<Rightarrow> jsnum" where
  "Math_sqrt (Fin x) = (if x < 0 then NaN else Fin (sqrt x))"
| "Math_sqrt PInf = PInf"
| "Math_sqrt NInf = NaN"
| "Math_sqrt NaN = NaN"

text \<open>The comparison \<^verbatim>\<open>a < b\<close>; \<^verbatim>\<open>a > b\<close> is \<open>js_lt b a\<close>.\<close>

fun js_lt :: "jsnum \<Rightarrow> jsnum \<Rightarrow> bool" where
  "js_lt (Fin x) (Fin y) = (x < y)"
| "js_lt NaN _ = False"
| "js_lt _ NaN = False"
| "js_lt _ NInf = False"
| "js_lt PInf _ = False"
| "js_lt NInf _ = True"
| "js_lt _ PInf = True"

definition js_gt :: "jsnum \<Rightarrow> jsnum \<Rightarrow> bool" where
  "js_gt a b = js_lt b a"

text \<open>Strict equality \<^verbatim>\<open>a === b\<close> on numbers: NaN equals nothing, itself included.\<close>

definition js_eq :: "jsnum \<Rightarrow> jsnum \<Rightarrow> bool" where
  "js_eq a b = (a \<noteq> NaN \<and> a = b)"

text \<open>
  \<^verbatim>\<open>Math.min\<close> and \<^verbatim>\<open>Math.max\<close> of an argument list: the scan starts at
  \<open>Infinity\<close> (respectively \<open>-Infinity\<close>), which is the answer for no argument, and a NaN
  argument makes the result NaN.
\<close>

definition min2 :: "jsnum \<Rightarrow> jsnum \<Rightarrow> jsnum" where
  "min2 a b = (if a = NaN \<or> b = NaN then NaN else if js_lt b a then b else a)"

definition max2 :: "jsnum \<Rightarrow> jsnum \<Rightarrow> jsnum" where
  "max2 a b = (if a = NaN \<or> b = NaN then NaN else if js_lt a b then b else a)"

definition Math_min :: "jsnum list \<Rightarrow> jsnum" where
  "Math_min xs = foldl min2 PInf xs"

definition Math_max :: "jsnum list \<Rightarrow> jsnum" where
  "Math_max xs = foldl max2 NInf xs"

text \<open>\<^verbatim>\<open>x || 0\<close> on a number: the falsy numbers are zero and NaN.\<close>

definition or0 :: "jsnum \<Rightarrow> jsnum" where
  "or0 x = (if x = NaN \<or> x = Fin 0 then Fin 0 else x)"

text \<open>
  Reading \<^verbatim>\<open>xs[i]\<close> in a numeric context: an index out of range gives
  \<^verbatim>\<open>undefined\<close>, which arithmetic turns into NaN.
\<close>

definition num_at :: "jsnum list \<Rightarrow> nat \<Rightarrow> jsnum" where
  "num_at xs i = (if i < length xs then xs ! i else NaN)"

definition nth_opt :: "'a list \<Rightarrow> nat \<Rightarrow> 'a option" where
  "nth_opt xs i = (if i < length xs then Some (xs ! i) else None)"

section \<open>Records and errors\<close>

text \<open>
  A \<^verbatim>\<open>CustomerRecord\<close> is an object whose properties hold strings or numbers. It is
  modelled as the list of its properties in the order \<^verbatim>\<open>Object.keys\<close> reports them;
  reading a property that is absent gives \<^verbatim>\<open>undefined\<close> (\<open>None\<close>).
\<close>

datatype jsval = JNumber jsnum | JString string

type_synonym CustomerRecord = "(string \<times> jsval) list"

definition Object_keys :: "CustomerRecord \<Rightarrow> string list" where
  "Object_keys record = map fst record"

definition read_prop :: "CustomerRecord \<Rightarrow> string \<Rightarrow> jsval option" where
  "read_prop record key = map_of record key"

text \<open>\<^verbatim>\<open>typeof v === 'number'\<close>.\<close>

fun is_number :: "jsval option \<Rightarrow> bool" where
  "is_number (Some (JNumber _)) = True"
| "is_number _ = False"

text \<open>
  \<^verbatim>\<open>Number(v)\<close>: a number is itself, \<^verbatim>\<open>undefined\<close> is NaN, and a string is parsed
  by the language's string-to-number conversion, which is taken as the parameter
  \<open>str_num\<close>.
\<close>

fun Number :: "(string \<Rightarrow> jsnum) \<Rightarrow> jsval option \<Rightarrow> jsnum" where
  "Number str_num (Some (JNumber x)) = x"
| "Number str_num (Some (JString s)) = str_num s"
| "Number str_num None = NaN"

text \<open>
  The exceptions of the module: the \<^verbatim>\<open>TypeError\<close> of the runtime (reading the keys
  of \<^verbatim>\<open>data[0]\<close> when the dataset is empty, reducing an empty array without an
  initial value), the error of \<^verbatim>\<open>euclidean\<close> on vectors of different lengths, the
  error of \<^verbatim>\<open>performClustering\<close> when there are fewer records than clusters
  (it carries the requested \<open>k\<close>), and whatever the k-means library throws.
\<close>

datatype error =
    TypeError
  | VectorLengthError
  | NotEnoughData nat
  | KMeansThrown string

section \<open>Feature normalization\<close>

record NormalizedData =
  normalized :: "jsnum list list"
  features :: "string list"

text \<open>The value the feature matrix is built from: \<^verbatim>\<open>Number(record[feature]) || 0\<close>.\<close>

definition raw_value :: "(string \<Rightarrow> jsnum) \<Rightarrow> CustomerRecord \<Rightarrow> string \<Rightarrow> jsnum" where
  "raw_value str_num record feature = or0 (Number str_num (read_prop record feature))"

definition select_features :: "CustomerRecord \<Rightarrow> string list \<Rightarrow> string list" where
  "select_features first excludeColumns =
     filter (\<lambda>key. key \<notin> set excludeColumns \<and> is_number (read_prop first key)) (Object_keys first)"

definition normalize_row :: "jsnum list \<Rightarrow> jsnum list \<Rightarrow> jsnum list \<Rightarrow> jsnum list" where
  "normalize_row mins maxs row =
     map (\<lambda>(i, val).
            let range = js_sub (num_at maxs i) (num_at mins i)
            in if js_eq range (Fin 0) then Fin 0
               else js_div (js_sub val (num_at mins i)) range)
         (enumerate 0 row)"

definition normalizeData ::
  "(string \<Rightarrow> jsnum) \<Rightarrow> CustomerRecord list \<Rightarrow> string list \<Rightarrow> error + NormalizedData" where
  "normalizeData str_num data excludeColumns =
     (case data of
        [] \<Rightarrow> Inl TypeError
      | first # _ \<Rightarrow>
          let features = select_features first excludeColumns;
              values = map (\<lambda>record. map (raw_value str_num record) features) data;
              mins = map (\<lambda>i. Math_min (map (\<lambda>row. num_at row i) values)) [0..<length features];
              maxs = map (\<lambda>i. Math_max (map (\<lambda>row. num_at row i) values)) [0..<length features];
              normalized = map (normalize_row mins maxs) values
          in Inr \<lparr>normalized = normalized, features = features\<rparr>)"

section \<open>Silhouette score\<close>

text \<open>
  \<^verbatim>\<open>euclidean\<close> throws when the two vectors differ in length; otherwise it runs over
  the indices of the first one.
\<close>

definition euclidean :: "jsnum list \<Rightarrow> jsnum list \<Rightarrow> error + jsnum" where
  "euclidean a b =
     (if length a \<noteq> length b then Inl VectorLengthError
      else Inr (Math_sqrt
             (foldl (\<lambda>acc i. let diff = js_sub (num_at a i) (num_at b i)
                              in js_add acc (js_mul diff diff))
                (Fin 0) [0..<length a])))"

text \<open>
  \<^verbatim>\<open>points.reduce((sum, point) => sum + euclidean(p, point), 0)\<close>: the first
  exception of \<^verbatim>\<open>euclidean\<close> ends the reduction.
\<close>

fun sum_distances :: "jsnum list \<Rightarrow> jsnum list list \<Rightarrow> jsnum \<Rightarrow> error + jsnum" where
  "sum_distances p [] acc = Inr acc"
| "sum_distances p (point # points) acc =
     (case euclidean p point of
        Inl e \<Rightarrow> Inl e
      | Inr d \<Rightarrow> sum_distances p points (js_add acc d))"

definition mean_distance :: "jsnum list \<Rightarrow> jsnum list list \<Rightarrow> error + jsnum" where
  "mean_distance p points =
     (case sum_distances p points (Fin 0) of
        Inl e \<Rightarrow> Inl e
      | Inr acc \<Rightarrow> Inr (js_div acc (Fin (real (length points)))))"

text \<open>\<^verbatim>\<open>data.filter((_, idx) => keep(idx))\<close>.\<close>

definition filter_idx :: "(nat \<Rightarrow> bool) \<Rightarrow> 'a list \<Rightarrow> 'a list" where
  "filter_idx keep xs = map snd (filter (\<lambda>(idx, _). keep idx) (enumerate 0 xs))"

text \<open>\<^verbatim>\<open>[...new Set(xs)]\<close>: the distinct elements in the order of their first occurrence.\<close>

definition Set_values :: "'a list \<Rightarrow> 'a list" where
  "Set_values xs = foldl (\<lambda>seen x. if x \<in> set seen then seen else seen @ [x]) [] xs"

text \<open>
  The inner loop over the other clusters, which lowers \<open>bI\<close> to the smallest mean distance.
  A cluster id is a natural number; \<^verbatim>\<open>clusters[idx]\<close> beyond the end of the assignment
  is \<^verbatim>\<open>undefined\<close>.
\<close>

fun nearest_other ::
  "jsnum list list \<Rightarrow> nat list \<Rightarrow> jsnum list \<Rightarrow> nat list \<Rightarrow> jsnum \<Rightarrow> error + jsnum" where
  "nearest_other data clusters p [] bI = Inr bI"
| "nearest_other data clusters p (cluster # others) bI =
     (let otherClusterPoints = filter_idx (\<lambda>idx. nth_opt clusters idx = Some cluster) data
      in if length otherClusterPoints > 0
         then (case mean_distance p otherClusterPoints of
                 Inl e \<Rightarrow> Inl e
               | Inr avgDistance \<Rightarrow>
                   nearest_other data clusters p others (Math_min [bI, avgDistance]))
         else nearest_other data clusters p others bI)"

text \<open>
  The silhouette coefficient of point \<open>i\<close>: the body of the outer loop, which runs it for
  the indices \<open>i\<close> below the number of rows.
\<close>

definition silhouette ::
  "jsnum list list \<Rightarrow> nat list \<Rightarrow> nat \<Rightarrow> error + jsnum" where
  "silhouette data clusters i =
     (let currentCluster = nth_opt clusters i;
          sameClusterPoints =
            filter_idx (\<lambda>idx. nth_opt clusters idx = currentCluster \<and> idx \<noteq> i) data
      in case (if length sameClusterPoints > 0
               then mean_distance (data ! i) sameClusterPoints
               else Inr (Fin 0)) of
           Inl e \<Rightarrow> Inl e
         | Inr aI \<Rightarrow>
             (let otherClusters =
                    filter (\<lambda>c. Some c \<noteq> currentCluster) (Set_values clusters)
              in case nearest_other data clusters (data ! i) otherClusters PInf of
                   Inl e \<Rightarrow> Inl e
                 | Inr bI \<Rightarrow>
                     Inr (if js_eq bI PInf then Fin 0
                          else js_div (js_sub bI aI) (Math_max [aI, bI]))))"

fun silhouette_loop ::
  "jsnum list list \<Rightarrow> nat list \<Rightarrow> nat list \<Rightarrow> jsnum \<Rightarrow> error + jsnum" where
  "silhouette_loop data clusters [] totalScore = Inr totalScore"
| "silhouette_loop data clusters (i # rest) totalScore =
     (case silhouette data clusters i of
        Inl e \<Rightarrow> Inl e
      | Inr s \<Rightarrow> silhouette_loop data clusters rest (js_add totalScore s))"

definition calculateSilhouetteScore :: "jsnum list list \<Rightarrow> nat list \<Rightarrow> error + jsnum" where
  "calculateSilhouetteScore data clusters =
     (let n = length data
      in case silhouette_loop data clusters [0..<n] (Fin 0) of
           Inl e \<Rightarrow> Inl e
         | Inr totalScore \<Rightarrow> Inr (js_div totalScore (Fin (real n))))"

section \<open>Clustering and cluster summaries\<close>

definition CLUSTER_COLORS :: "string list" where
  "CLUSTER_COLORS =
     [''#3b82f6'', ''#10b981'', ''#f59e0b'', ''#ef4444'',
      ''#8b5cf6'', ''#06b6d4'', ''#f97316'', ''#84cc16'']"

definition CLUSTER_NAMES :: "string list" where
  "CLUSTER_NAMES =
     [''High-Value Customers'', ''Budget-Conscious'', ''Frequent Buyers'',
      ''Occasional Shoppers'', ''Premium Seekers'', ''Deal Hunters'',
      ''Loyal Customers'', ''New Customers'']"

text \<open>
  The number of clusters \<open>k\<close> and the bound \<open>maxK\<close> are natural numbers.

  The k-means routine is the library function \<^verbatim>\<open>kmeans\<close> of \<^verbatim>\<open>ml-kmeans\<close>, called
  as \<^verbatim>\<open>kmeans(normalized, k, { maxIterations: 100 })\<close>. It is not part of this
  repository and is taken as a parameter: given the matrix and \<open>k\<close> it either throws
  (\<open>Inl\<close> with the message) or answers with one cluster id per row and the centroids.
\<close>

record KMeansResult =
  km_clusters :: "nat list"
  km_centroids :: "jsnum list list"

type_synonym kmeans = "jsnum list list \<Rightarrow> nat \<Rightarrow> string + KMeansResult"

text \<open>
  \<^verbatim>\<open>ClusterResult\<close> (its field \<^verbatim>\<open>data\<close> is \<open>cr_data\<close> here). The cluster id and the
  centroid are \<^verbatim>\<open>undefined\<close> when the library's answer has no entry for the record.
\<close>

record ClusterResult =
  cluster :: "nat option"
  cr_data :: CustomerRecord
  centroid :: "jsnum list option"

record ClusterSummary =
  clusterId :: nat
  count :: nat
  characteristics :: "(string \<times> jsnum) list"
  color :: string
  name :: string

record ClusterAnalysis =
  clusters :: "ClusterResult list"
  centroids :: "jsnum list list"
  silhouetteScore :: jsnum
  clusterSummaries :: "ClusterSummary list"

definition cluster_results :: "KMeansResult \<Rightarrow> CustomerRecord list \<Rightarrow> ClusterResult list" where
  "cluster_results result data =
     map (\<lambda>(index, record).
            \<lparr>cluster = nth_opt (km_clusters result) index,
             cr_data = record,
             centroid = (case nth_opt (km_clusters result) index of
                           None \<Rightarrow> None
                         | Some c \<Rightarrow> nth_opt (km_centroids result) c)\<rparr>)
         (enumerate 0 data)"

text \<open>The body of the loop that builds the summary of cluster \<open>i\<close>.\<close>

definition cluster_summary ::
  "(string \<Rightarrow> jsnum) \<Rightarrow> string list \<Rightarrow> ClusterResult list \<Rightarrow> nat \<Rightarrow> ClusterSummary" where
  "cluster_summary str_num feats clusterResults i =
     (let clusterData = filter (\<lambda>r. cluster r = Some i) clusterResults;
          chars = map (\<lambda>feature.
                    let values = map (\<lambda>r. raw_value str_num (cr_data r) feature) clusterData
                    in (feature, js_div (foldl js_add (Fin 0) values)
                                        (Fin (real (length values)))))
                  feats
      in \<lparr>clusterId = i,
          count = length clusterData,
          characteristics = chars,
          color = CLUSTER_COLORS ! (i mod length CLUSTER_COLORS),
          name = CLUSTER_NAMES ! (i mod length CLUSTER_NAMES)\<rparr>)"

definition performClustering ::
  "(string \<Rightarrow> jsnum) \<Rightarrow> kmeans \<Rightarrow> CustomerRecord list \<Rightarrow> nat \<Rightarrow> error + ClusterAnalysis" where
  "performClustering str_num km data k =
     (case normalizeData str_num data [''id''] of
        Inl e \<Rightarrow> Inl e
      | Inr nd \<Rightarrow>
          if length (normalized nd) < k then Inl (NotEnoughData k)
          else (case km (normalized nd) k of
                  Inl msg \<Rightarrow> Inl (KMeansThrown msg)
                | Inr result \<Rightarrow>
                    (let clusterResults = cluster_results result data
                     in case calculateSilhouetteScore (normalized nd) (km_clusters result) of
                          Inl e \<Rightarrow> Inl e
                        | Inr score \<Rightarrow>
                            Inr \<lparr>clusters = clusterResults,
                                 centroids = km_centroids result,
                                 silhouetteScore = score,
                                 clusterSummaries =
                                   map (cluster_summary str_num (features nd) clusterResults)
                                       [0..<k]\<rparr>)))"

section \<open>Choosing the number of clusters\<close>

record OptimalClusters =
  opt_k :: nat
  scores :: "(nat \<times> jsnum) list"

text \<open>
  The loop \<^verbatim>\<open>for (k = 2; k <= Math.min(maxK, data.length); k++)\<close> over the candidates
  that are left: an exception of \<^verbatim>\<open>performClustering\<close> is caught and breaks the loop.
\<close>

fun scan_candidates ::
  "(string \<Rightarrow> jsnum) \<Rightarrow> kmeans \<Rightarrow> CustomerRecord list \<Rightarrow> nat list \<Rightarrow> (nat \<times> jsnum) list" where
  "scan_candidates str_num km data [] = []"
| "scan_candidates str_num km data (k # ks) =
     (case performClustering str_num km data k of
        Inl e \<Rightarrow> []
      | Inr analysis \<Rightarrow> (k, silhouetteScore analysis) # scan_candidates str_num km data ks)"

text \<open>\<^verbatim>\<open>xs.reduce(f)\<close> without an initial value throws a TypeError on an empty array.\<close>

fun reduce1 :: "('a \<Rightarrow> 'a \<Rightarrow> 'a) \<Rightarrow> 'a list \<Rightarrow> error + 'a" where
  "reduce1 f [] = Inl TypeError"
| "reduce1 f (x # xs) = Inr (foldl f x xs)"

definition better :: "nat \<times> jsnum \<Rightarrow> nat \<times> jsnum \<Rightarrow> nat \<times> jsnum" where
  "better best current = (if js_gt (snd current) (snd best) then current else best)"

definition findOptimalClusters ::
  "(string \<Rightarrow> jsnum) \<Rightarrow> kmeans \<Rightarrow> CustomerRecord list \<Rightarrow> nat \<Rightarrow> error + OptimalClusters" where
  "findOptimalClusters str_num km data maxK =
     (let found = scan_candidates str_num km data [2..<Suc (min maxK (length data))]
      in if length found = 0 then Inr \<lparr>opt_k = 2, scores = []\<rparr>
         else (case reduce1 better found of
                 Inl e \<Rightarrow> Inl e
               | Inr optimal \<Rightarrow> Inr \<lparr>opt_k = fst optimal, scores = found\<rparr>))"

section \<open>Example inputs\<close>

text \<open>
  A string conversion that agrees with JavaScript's \<^verbatim>\<open>Number\<close> on the strings of the
  examples: \<^verbatim>\<open>'Infinity'\<close> is \<open>Infinity\<close>, and a text that is no numeral is NaN.
\<close>

definition example_str_num :: "string \<Rightarrow> jsnum" where
  "example_str_num s = (if s = ''Infinity'' then PInf else NaN)"

text \<open>
  Two answers a k-means routine can give. \<open>grouped\<close> cuts the rows, in their order,
  into \<open>k\<close> groups: row \<open>i\<close> of \<open>n\<close> goes to cluster \<open>(i * k) div n\<close>. With as many clusters as
  rows every row is a cluster of its own, and three rows that lie on a line in their
  order are split into the first two and the last for \<open>k = 2\<close>.
  \<open>one_cluster\<close> puts every row into cluster 0, which is where assignment to the nearest
  centroid (ties to the lowest id) sends rows that are all equal.
\<close>

definition grouped :: kmeans where
  "grouped m k =
     Inr \<lparr>km_clusters = map (\<lambda>i. (i * k) div length m) [0..<length m],
          km_centroids = take k m\<rparr>"

definition one_cluster :: kmeans where
  "one_cluster m k =
     Inr \<lparr>km_clusters = map (\<lambda>i. 0) [0..<length m],
          km_centroids = replicate k (case m of [] \<Rightarrow> [] | r # _ \<Rightarrow> r)\<rparr>"

definition customer :: "string \<Rightarrow> real \<Rightarrow> real \<Rightarrow> CustomerRecord" where
  "customer ident age spend =
     [(''id'', JString ident), (''age'', JNumber (Fin age)), (''spend'', JNumber (Fin spend))]"

definition three_customers :: "CustomerRecord list" where
  "three_customers = [customer ''c1'' 20 100, customer ''c2'' 30 100, customer ''c3'' 40 100]"

definition three_alike :: "CustomerRecord list" where
  "three_alike = [customer ''c1'' 20 100, customer ''c2'' 20 100, customer ''c3'' 20 100]"

definition one_feature :: "CustomerRecord list" where
  "one_feature = [[(''id'', JString ''c1''), (''age'', JNumber (Fin 30)), (''city'', JString ''Pune'')]]"


text \<open>
  Two records whose only feature is \<open>2^1023\<close> and \<open>- 2^1023\<close>: both are doubles, and their
  difference \<open>2^1024\<close> is not.
\<close>

definition huge :: real where
  "huge = 2 ^ 1023"

definition huge_spread :: "CustomerRecord list" where
  "huge_spread =
     [[(''id'', JString ''c1''), (''x'', JNumber (Fin huge))],
      [(''id'', JString ''c2''), (''x'', JNumber (Fin (- huge)))]]"

text \<open>
  A library that throws for every \<open>k\<close> from \<open>j\<close> on and answers like \<open>grouped\<close> for a
  smaller \<open>k\<close>.
\<close>

definition throws_from :: "nat \<Rightarrow> kmeans" where
  "throws_from j m k = (if j \<le> k then Inl ''no clustering'' else grouped m k)"



section \<open>Auxiliary predicates\<close>






section \<open>Overflow\<close>

lemma overflow_bound_large: "2 ^ 1023 \<le> overflow_bound"
proof -
  have "(2::real) ^ 970 \<le> 2 ^ 1023"
    by (rule power_increasing) simp_all
  moreover have "(2::real) ^ 1024 = 2 * 2 ^ 1023"
    by simp
  ultimately show ?thesis
    by (simp add: overflow_bound_def)
qed

lemma overflow_bound_million: "1000000 < overflow_bound"
proof -
  have "(1000000::real) < 2 ^ 20" by simp
  also have "(2::real) ^ 20 \<le> 2 ^ 1023"
    by (rule power_increasing) simp_all
  finally show ?thesis
    using overflow_bound_large by simp
qed

lemma fl_between: "- overflow_bound < x \<Longrightarrow> x < overflow_bound \<Longrightarrow> fl x = Fin x"
  by (simp add: fl_def)

lemma fl_small: "\<bar>x\<bar> \<le> 1000000 \<Longrightarrow> fl x = Fin x"
  using overflow_bound_million by (intro fl_between) (simp_all add: abs_le_iff)

lemma fl_zero: "fl 0 = Fin 0"
  by (simp add: fl_small)


lemma huge_pos:
  "0 < huge" "huge \<noteq> 0" "- huge < huge" "\<not> huge < - huge" "\<not> huge < 0" "\<not> 0 < - huge"
  by (simp_all add: huge_def)

lemma fl_overflows: "fl (2 * huge) = PInf"
proof -
  have "overflow_bound \<le> 2 * huge"
    by (simp add: overflow_bound_def huge_def)
  then show ?thesis by (simp add: fl_def)
qed

section \<open>When the operations return\<close>

lemma length_normalize_row: "length (normalize_row mins maxs row) = length row"
  by (simp add: normalize_row_def)

lemma normalizeData_shape:
  assumes "data \<noteq> []"
  shows "\<exists>nd. normalizeData str_num data ex = Inr nd
           \<and> features nd = select_features (hd data) ex
           \<and> length (normalized nd) = length data
           \<and> (\<forall>row \<in> set (normalized nd). length row = length (features nd))"
proof (cases data)
  case Nil
  with assms show ?thesis by simp
next
  case (Cons first rest)
  then show ?thesis
    by (auto simp: normalizeData_def Let_def length_normalize_row)
qed

lemma normalizeData_empty: "normalizeData str_num [] ex = Inl TypeError"
  by (simp add: normalizeData_def)

lemma euclidean_same_length: "length a = length b \<Longrightarrow> \<exists>d. euclidean a b = Inr d"
  by (simp add: euclidean_def)

lemma sum_distances_returns:
  "\<forall>q \<in> set points. length q = length p \<Longrightarrow> \<exists>s. sum_distances p points acc = Inr s"
proof (induction points arbitrary: acc)
  case Nil
  show ?case by simp
next
  case (Cons q points)
  then obtain d where "euclidean p q = Inr d"
    using euclidean_same_length [of p q] by auto
  with Cons show ?case by simp
qed

lemma mean_distance_returns:
  "\<forall>q \<in> set points. length q = length p \<Longrightarrow> \<exists>s. mean_distance p points = Inr s"
  using sum_distances_returns [of points p "Fin 0"]
  by (auto simp: mean_distance_def)

lemma set_filter_idx: "set (filter_idx keep xs) \<subseteq> set xs"
  by (auto simp: filter_idx_def in_set_enumerate_eq)

lemma nearest_other_returns:
  "\<forall>q \<in> set data. length q = length p \<Longrightarrow> \<exists>b. nearest_other data asg p others bI = Inr b"
proof (induction others arbitrary: bI)
  case Nil
  show ?case by simp
next
  case (Cons c others)
  let ?pts = "filter_idx (\<lambda>idx. nth_opt asg idx = Some c) data"
  have "\<forall>q \<in> set ?pts. length q = length p"
    using Cons.prems set_filter_idx [of _ data] by blast
  then obtain m where "mean_distance p ?pts = Inr m"
    using mean_distance_returns by blast
  with Cons show ?case by (simp add: Let_def)
qed

lemma silhouette_returns:
  assumes "\<forall>r \<in> set data. length r = d" and "i < length data"
  shows "\<exists>s. silhouette data asg i = Inr s"
proof -
  have same: "\<forall>q \<in> set data. length q = length (data ! i)"
    using assms by simp
  let ?pts = "filter_idx (\<lambda>idx. nth_opt asg idx = nth_opt asg i \<and> idx \<noteq> i) data"
  have "\<forall>q \<in> set ?pts. length q = length (data ! i)"
    using same set_filter_idx [of _ data] by blast
  then obtain a where a: "mean_distance (data ! i) ?pts = Inr a"
    using mean_distance_returns by blast
  obtain b where b: "nearest_other data asg (data ! i)
      (filter (\<lambda>c. Some c \<noteq> nth_opt asg i) (Set_values asg)) PInf = Inr b"
    using nearest_other_returns [OF same] by blast
  show ?thesis
    by (simp add: silhouette_def Let_def a b)
qed

lemma silhouette_loop_returns:
  "\<forall>r \<in> set data. length r = d \<Longrightarrow> \<forall>i \<in> set idxs. i < length data \<Longrightarrow>
     \<exists>s. silhouette_loop data asg idxs acc = Inr s"
proof (induction idxs arbitrary: acc)
  case Nil
  show ?case by simp
next
  case (Cons i idxs)
  then obtain s where s: "silhouette data asg i = Inr s"
    using silhouette_returns [of data d i asg] by auto
  from Cons.prems have "\<forall>i \<in> set idxs. i < length data" by simp
  from Cons.IH [OF Cons.prems(1) this, of "js_add acc s"] s show ?case by simp
qed

lemma calculateSilhouetteScore_returns:
  assumes "\<forall>r \<in> set data. length r = d"
  shows "\<exists>s. calculateSilhouetteScore data asg = Inr s"
proof -
  obtain t where "silhouette_loop data asg [0..<length data] (Fin 0) = Inr t"
    using silhouette_loop_returns [OF assms, of "[0..<length data]" asg "Fin 0"] by auto
  then show ?thesis
    by (simp add: calculateSilhouetteScore_def Let_def)
qed

lemma normalized_rectangular:
  "normalizeData str_num data ex = Inr nd \<Longrightarrow>
     \<forall>row \<in> set (normalized nd). length row = length (features nd)"
  using normalizeData_shape [of data str_num ex] normalizeData_empty [of str_num ex]
  by (cases "data = []") auto

lemma performClustering_empty: "performClustering str_num km [] k = Inl TypeError"
  by (simp add: performClustering_def normalizeData_empty)

lemma performClustering_too_few:
  "data \<noteq> [] \<Longrightarrow> length data < k \<Longrightarrow> performClustering str_num km data k = Inl (NotEnoughData k)"
  using normalizeData_shape [of data str_num "[''id'']"]
  by (auto simp: performClustering_def)

lemma performClustering_library_throws:
  assumes "normalizeData str_num data [''id''] = Inr nd" and "k \<le> length data"
    and "km (normalized nd) k = Inl msg"
  shows "performClustering str_num km data k = Inl (KMeansThrown msg)"
  using assms normalizeData_shape [of data str_num "[''id'']"] normalizeData_empty [of str_num "[''id'']"]
  by (cases "data = []") (auto simp: performClustering_def)

lemma performClustering_returns:
  assumes "normalizeData str_num data [''id''] = Inr nd" and "k \<le> length data"
    and "km (normalized nd) k = Inr result"
  shows "\<exists>score. calculateSilhouetteScore (normalized nd) (km_clusters result) = Inr score \<and>
     performClustering str_num km data k =
       Inr \<lparr>clusters = cluster_results result data,
            centroids = km_centroids result,
            silhouetteScore = score,
            clusterSummaries =
              map (cluster_summary str_num (features nd) (cluster_results result data)) [0..<k]\<rparr>"
proof -
  have len: "length (normalized nd) = length data"
    using assms(1) normalizeData_shape [of data str_num "[''id'']"] normalizeData_empty [of str_num "[''id'']"]
    by (cases "data = []") auto
  obtain score where "calculateSilhouetteScore (normalized nd) (km_clusters result) = Inr score"
    using calculateSilhouetteScore_returns [OF normalized_rectangular [OF assms(1)]] by blast
  then show ?thesis
    using assms len by (simp add: performClustering_def Let_def)
qed

lemma performClustering_Inr_iff:
  assumes "performClustering str_num km data k = Inr a"
  shows "\<exists>nd result score. normalizeData str_num data [''id''] = Inr nd
           \<and> k \<le> length (normalized nd)
           \<and> km (normalized nd) k = Inr result
           \<and> calculateSilhouetteScore (normalized nd) (km_clusters result) = Inr score
           \<and> clusters a = cluster_results result data
           \<and> centroids a = km_centroids result
           \<and> silhouetteScore a = score
           \<and> clusterSummaries a =
               map (cluster_summary str_num (features nd) (cluster_results result data)) [0..<k]"
  using assms
  by (auto simp: performClustering_def Let_def split: sum.splits if_splits)

lemma performClustering_score:
  assumes "normalizeData str_num data [''id''] = Inr nd" and "k \<le> length data"
    and "km (normalized nd) k = Inr result"
    and "calculateSilhouetteScore (normalized nd) (km_clusters result) = Inr score"
  shows "\<not> isl (performClustering str_num km data k)"
    and "silhouetteScore (projr (performClustering str_num km data k)) = score"
  using performClustering_returns [where km = km, OF assms(1-3)] assms(4) by auto

section \<open>The candidate scan and the choice of the best score\<close>




lemma scan_candidates_prefix:
  "scan_candidates str_num km data ks =
     map (\<lambda>k. (k, silhouetteScore (projr (performClustering str_num km data k))))
         (takeWhile (\<lambda>k. \<not> isl (performClustering str_num km data k)) ks)"
  by (induction ks) (auto split: sum.splits)






lemma findOptimalClusters_result:
  "\<exists>r. findOptimalClusters str_num km data maxK = Inr r
     \<and> scores r = scan_candidates str_num km data [2..<Suc (min maxK (length data))]
     \<and> (scores r = [] \<longrightarrow> opt_k r = 2)
     \<and> (\<forall>x xs. scores r = x # xs \<longrightarrow> opt_k r = fst (foldl better x xs))"
  by (cases "scan_candidates str_num km data [2..<Suc (min maxK (length data))]")
     (simp_all add: findOptimalClusters_def Let_def)








section \<open>The entries of the feature matrix\<close>



















section \<open>The silhouette formula and the member counts\<close>

text \<open>
  When the library answers with one cluster id below \<open>k\<close> per record, the member counts of
  the summaries add up to the number of records, and the summaries carry the ids
  \<open>0, \<dots>, k - 1\<close> in ascending order (\<open>summary_counts\<close> below).
\<close>

lemma count_cluster_summary:
  "count (cluster_summary str_num feats results i) = length (filter (\<lambda>r. cluster r = Some i) results)"
  by (simp add: cluster_summary_def Let_def)

lemma cluster_of_results:
  "length (km_clusters result) = length data \<Longrightarrow>
     map cluster (cluster_results result data) = map Some (km_clusters result)"
  by (auto simp: cluster_results_def nth_opt_def list_eq_iff_nth_eq nth_enumerate_eq)

lemma count_is_count_list:
  "length (filter (\<lambda>r. cluster r = Some i) results) = count_list (map cluster results) (Some i)"
  by (induction results) auto

lemma count_list_Some: "count_list (map Some xs) (Some i) = count_list xs i"
  by (induction xs) auto

lemma summary_counts:
  assumes "performClustering str_num km data k = Inr a"
    and "normalizeData str_num data [''id''] = Inr nd"
    and "km (normalized nd) k = Inr result"
    and "length (km_clusters result) = length data"
    and "\<forall>c \<in> set (km_clusters result). c < k"
  shows "sum_list (map count (clusterSummaries a)) = length data"
    and "map clusterId (clusterSummaries a) = [0..<k]"
proof -
  from performClustering_Inr_iff [OF assms(1)] assms(2,3)
  have sums: "clusterSummaries a =
      map (cluster_summary str_num (features nd) (cluster_results result data)) [0..<k]"
    by auto
  have "map count (clusterSummaries a) = map (count_list (km_clusters result)) [0..<k]"
    by (simp add: sums count_cluster_summary count_is_count_list
        cluster_of_results [OF assms(4)] count_list_Some)
  then have "sum_list (map count (clusterSummaries a)) = sum (count_list (km_clusters result)) {0..<k}"
    by (simp add: interv_sum_list_conv_sum_set_nat)
  also have "\<dots> = length (km_clusters result)"
    using assms(5) by (intro sum_count_set) auto
  finally show "sum_list (map count (clusterSummaries a)) = length data"
    using assms(4) by simp
  show "map clusterId (clusterSummaries a) = [0..<k]"
    by (simp add: sums cluster_summary_def Let_def map_idI)
qed

section \<open>The examples, evaluated\<close>

lemmas norm_eval = fl_small normalizeData_def select_features_def Object_keys_def
      read_prop_def normalize_row_def raw_value_def or0_def Math_min_def Math_max_def
      min2_def max2_def num_at_def js_sub_def js_eq_def customer_def

lemma upt_0_2: "[0..<2] = [0, 1]" by (simp add: upt_rec numeral_2_eq_2)

lemma upt_0_3: "[0..<3] = [0, 1, 2]" by (simp add: upt_rec numeral_3_eq_3)

lemma sqrt_quarter: "sqrt (1/4) = 1/2"
  by (simp add: real_sqrt_divide)

lemmas sil_eval = fl_small calculateSilhouetteScore_def silhouette_def filter_idx_def nth_opt_def
      Set_values_def mean_distance_def euclidean_def num_at_def js_sub_def Math_min_def Math_max_def
      min2_def max2_def js_eq_def upt_0_2 upt_0_3 sqrt_quarter

lemma three_customers_normalized: "normalizeData example_str_num three_customers [''id''] =
   Inr \<lparr>normalized = [[Fin 0, Fin 0], [Fin (1/2), Fin 0], [Fin 1, Fin 0]], features = [''age'', ''spend'']\<rparr>"
  by (simp add: norm_eval three_customers_def upt_0_2)

lemma length_three_customers: "length three_customers = 3"
  by (simp add: three_customers_def)

lemma three_customers_score_2: "calculateSilhouetteScore [[Fin 0, Fin 0], [Fin (1/2), Fin 0], [Fin 1, Fin 0]] [0,0,1] = Inr (Fin (1/2))"
  by (simp add: sil_eval)

lemma three_customers_score_3: "calculateSilhouetteScore [[Fin 0, Fin 0], [Fin (1/2), Fin 0], [Fin 1, Fin 0]] [0,1,2] = Inr (Fin 1)"
  by (simp add: sil_eval)

lemma grouped_three:
  "grouped [r0, r1, r2] 2 = Inr \<lparr>km_clusters = [0, 0, 1], km_centroids = [r0, r1]\<rparr>"
  "grouped [r0, r1, r2] 3 = Inr \<lparr>km_clusters = [0, 1, 2], km_centroids = [r0, r1, r2]\<rparr>"
  by (simp_all add: grouped_def upt_0_3)

lemma three_customers_halves:
  assumes "km [[Fin 0, Fin 0], [Fin (1/2), Fin 0], [Fin 1, Fin 0]] 2 = Inr res"
    and "km_clusters res = [0, 0, 1]"
  shows "\<not> isl (performClustering example_str_num km three_customers 2)"
    and "silhouetteScore (projr (performClustering example_str_num km three_customers 2)) = Fin (1/2)"
proof -
  let ?m = "[[Fin 0, Fin 0], [Fin (1/2), Fin 0], [Fin 1, Fin 0]]"
  let ?nd = "\<lparr>normalized = ?m, features = [''age'', ''spend'']\<rparr>"
  have le: "2 \<le> length three_customers" by (simp add: three_customers_def)
  have rr: "km (normalized ?nd) 2 = Inr res" using assms(1) by simp
  have sc: "calculateSilhouetteScore (normalized ?nd) (km_clusters res) = Inr (Fin (1/2))"
    using three_customers_score_2 assms(2) by simp
  from performClustering_score [where km = km, OF three_customers_normalized le rr sc]
  show "\<not> isl (performClustering example_str_num km three_customers 2)"
    and "silhouetteScore (projr (performClustering example_str_num km three_customers 2)) = Fin (1/2)"
    by simp_all
qed

lemma three_customers_2:
  "\<not> isl (performClustering example_str_num grouped three_customers 2)"
  "silhouetteScore (projr (performClustering example_str_num grouped three_customers 2)) = Fin (1/2)"
  using three_customers_halves [where km = grouped, OF grouped_three(1)] by simp_all

lemma three_customers_3:
  "\<not> isl (performClustering example_str_num grouped three_customers 3)"
  "silhouetteScore (projr (performClustering example_str_num grouped three_customers 3)) = Fin 1"
proof -
  let ?m = "[[Fin 0, Fin 0], [Fin (1/2), Fin 0], [Fin 1, Fin 0]]"
  let ?nd = "\<lparr>normalized = ?m, features = [''age'', ''spend'']\<rparr>"
  let ?res = "\<lparr>km_clusters = [0, 1, 2], km_centroids = ?m\<rparr>"
  have le: "3 \<le> length three_customers" by (simp add: three_customers_def)
  have rr: "grouped (normalized ?nd) 3 = Inr ?res" by (simp add: grouped_three)
  have sc: "calculateSilhouetteScore (normalized ?nd) (km_clusters ?res) = Inr (Fin 1)"
    using three_customers_score_3 by simp
  from performClustering_score [where km = grouped, OF three_customers_normalized le rr sc]
  show "\<not> isl (performClustering example_str_num grouped three_customers 3)"
    and "silhouetteScore (projr (performClustering example_str_num grouped three_customers 3)) = Fin 1"
    by simp_all
qed

lemma three_customers_throws:
  assumes "km [[Fin 0, Fin 0], [Fin (1/2), Fin 0], [Fin 1, Fin 0]] k = Inl msg"
    and "k \<le> 3"
  shows "performClustering example_str_num km three_customers k = Inl (KMeansThrown msg)"
proof -
  let ?nd = "\<lparr>normalized = [[Fin 0, Fin 0], [Fin (1/2), Fin 0], [Fin 1, Fin 0]],
              features = [''age'', ''spend'']\<rparr>"
  have le: "k \<le> length three_customers" using assms(2) by (simp add: length_three_customers)
  have "km (normalized ?nd) k = Inl msg" using assms(1) by simp
  from performClustering_library_throws [where km = km, OF three_customers_normalized le this] show ?thesis .
qed

lemma three_customers_scan:
  "scan_candidates example_str_num grouped three_customers [2..<Suc (min 8 (length three_customers))]
     = [(2, Fin (1/2)), (3, Fin 1)]"
proof -
  have "[2..<Suc (min 8 (length three_customers))] = [2, 3]"
    by (simp add: three_customers_def upt_rec)
  then show ?thesis
    by (simp add: scan_candidates_prefix three_customers_2 three_customers_3)
qed

lemma three_customers_optimal:
  "findOptimalClusters example_str_num grouped three_customers 8 =
     Inr \<lparr>opt_k = 3, scores = [(2, Fin (1/2)), (3, Fin 1)]\<rparr>"
  unfolding findOptimalClusters_def three_customers_scan
  by (simp add: better_def js_gt_def)

lemma three_alike_normalized:
  "normalizeData example_str_num three_alike [''id''] =
     Inr \<lparr>normalized = [[Fin 0, Fin 0], [Fin 0, Fin 0], [Fin 0, Fin 0]],
          features = [''age'', ''spend'']\<rparr>"
  by (simp add: norm_eval three_alike_def upt_0_2)

lemma one_cluster_three:
  "one_cluster [r0, r1, r2] 2 = Inr \<lparr>km_clusters = [0, 0, 0], km_centroids = [r0, r0]\<rparr>"
  by (simp add: one_cluster_def upt_0_3 numeral_2_eq_2)

lemma three_alike_summaries:
  "map (cluster_summary example_str_num [''age'', ''spend'']
         (cluster_results \<lparr>km_clusters = [0, 0, 0], km_centroids = cs\<rparr> three_alike)) [0..<2] =
     [\<lparr>clusterId = 0, count = 3,
        characteristics = [(''age'', Fin 20), (''spend'', Fin 100)],
        color = ''#3b82f6'', name = ''High-Value Customers''\<rparr>,
      \<lparr>clusterId = 1, count = 0,
        characteristics = [(''age'', NaN), (''spend'', NaN)],
        color = ''#10b981'', name = ''Budget-Conscious''\<rparr>]"
  by (simp add: fl_small cluster_summary_def cluster_results_def three_alike_def customer_def nth_opt_def
      raw_value_def read_prop_def or0_def CLUSTER_COLORS_def CLUSTER_NAMES_def upt_0_2)




lemma huge_spread_normalized:
  "normalizeData example_str_num huge_spread [''id''] =
     Inr \<lparr>normalized = [[NaN], [Fin 0]], features = [''x'']\<rparr>"
  by (simp add: normalizeData_def select_features_def Object_keys_def
      read_prop_def normalize_row_def raw_value_def or0_def Math_min_def Math_max_def
      min2_def max2_def num_at_def js_sub_def js_eq_def huge_spread_def
      huge_pos fl_overflows fl_zero)







section \<open>The claims\<close>

text \<open>
  C1 (as the code has it). For a non-empty dataset of \<open>n\<close> records,
  \<^verbatim>\<open>performClustering\<close> throws its not-enough-data error exactly when \<open>n < k\<close>. With
  \<open>k \<le> n\<close>, so also with \<open>k = n\<close>, the guard does not fire and the call reaches the
  k-means library: the result is never the not-enough-data error.
\<close>

theorem performClustering_guard:
  assumes "data \<noteq> []"
  shows "(length data < k \<longrightarrow> performClustering str_num km data k = Inl (NotEnoughData k))
       \<and> (k \<le> length data \<longrightarrow> (\<forall>j. performClustering str_num km data k \<noteq> Inl (NotEnoughData j)))"
proof (intro conjI impI allI)
  assume "length data < k"
  with assms show "performClustering str_num km data k = Inl (NotEnoughData k)"
    by (rule performClustering_too_few)
next
  fix j
  assume le: "k \<le> length data"
  obtain nd where nd: "normalizeData str_num data [''id''] = Inr nd"
    using normalizeData_shape [OF assms] by blast
  show "performClustering str_num km data k \<noteq> Inl (NotEnoughData j)"
  proof (cases "km (normalized nd) k")
    case (Inl msg)
    from performClustering_library_throws [where km = km, OF nd le Inl] show ?thesis by simp
  next
    case (Inr result)
    from performClustering_returns [where km = km, OF nd le Inr] show ?thesis by auto
  qed
qed

theorem performClustering_guard_witness:
  "three_customers \<noteq> [] \<and> length three_customers < 4 \<and> 3 \<le> length three_customers
   \<and> performClustering example_str_num grouped three_customers 4 = Inl (NotEnoughData 4)
   \<and> performClustering example_str_num grouped three_customers 3 \<noteq> Inl (NotEnoughData 3)"
proof -
  have ne: "three_customers \<noteq> []" and len: "length three_customers = 3"
    by (simp_all add: three_customers_def)
  from performClustering_guard [OF ne, of 4 example_str_num grouped]
       performClustering_guard [OF ne, of 3 example_str_num grouped] ne len
  show ?thesis by simp
qed

text \<open>
  C1 as stated fails at its own concrete case: three records and \<open>k = 3\<close>. The guard
  compares \<open>3 < 3\<close>, and with a library that answers, the analysis is returned.
\<close>

theorem performClustering_three_of_three_returns:
  "\<not> isl (performClustering example_str_num grouped three_customers 3)"
proof -
  have ne: "three_customers \<noteq> []" and len: "3 \<le> length three_customers"
    by (simp_all add: three_customers_def)
  obtain nd where nd: "normalizeData example_str_num three_customers [''id''] = Inr nd"
    using normalizeData_shape [OF ne] by blast
  obtain result where "grouped (normalized nd) 3 = Inr result"
    by (simp add: grouped_def)
  from performClustering_returns [where km = grouped, OF nd len this] show ?thesis by auto
qed

text \<open>
  C2, at an input where the code departs from it. The loop runs while
  \<^verbatim>\<open>k <= Math.min(maxK, data.length)\<close>, one candidate beyond the limit
  \<open>min(maxK, n - 1)\<close> of the claim, which the project's description ("limited to 8 or data
  size - 1") and the cluster selector of the dashboard (\<^verbatim>\<open>Math.min(8, data.length - 1)\<close>)
  have too. With three records the candidate \<open>k = 3\<close> is tried and recorded, every record
  is a cluster of its own with silhouette 1, and \<open>k = 3\<close> is returned.
\<close>

theorem findOptimalClusters_returns_n:
  "findOptimalClusters example_str_num grouped three_customers 8 =
     Inr \<lparr>opt_k = 3, scores = [(2, Fin (1/2)), (3, Fin 1)]\<rparr>
   \<and> \<not> 3 \<le> min 8 (length three_customers - 1)"
  by (simp add: three_customers_optimal length_three_customers)

text \<open>
  C3 (as the code has it). \<^verbatim>\<open>normalizeData\<close> has no check on the number of eligible
  features and signals no error for a non-empty dataset: it returns the eligible keys of
  the first record, in key order, and a matrix with one row per record and one column per
  feature, also when fewer than two features (or none) are eligible. The check for two
  numeric columns is made by the upload component before the data reaches the pipeline.
\<close>

theorem normalizeData_never_short:
  assumes "data \<noteq> []"
  shows "\<exists>nd. normalizeData str_num data excludeColumns = Inr nd
           \<and> features nd = select_features (hd data) excludeColumns
           \<and> length (normalized nd) = length data
           \<and> (\<forall>row \<in> set (normalized nd). length row = length (features nd))"
  using assms by (rule normalizeData_shape)

theorem normalizeData_never_short_witness:
  "one_feature \<noteq> [] \<and>
   (\<exists>nd. normalizeData example_str_num one_feature [''id''] = Inr nd
      \<and> features nd = select_features (hd one_feature) [''id'']
      \<and> length (normalized nd) = length one_feature
      \<and> (\<forall>row \<in> set (normalized nd). length row = length (features nd)))"
proof -
  have ne: "one_feature \<noteq> []" by (simp add: one_feature_def)
  from normalizeData_never_short [OF ne, of example_str_num "[''id'']"] ne
  show ?thesis by simp
qed

text \<open>
  C3 as stated fails: a dataset whose first record has one numeric field besides the id
  has one eligible feature, and \<^verbatim>\<open>normalizeData\<close> returns a one-column matrix.
\<close>

theorem normalizeData_one_feature_returns:
  "normalizeData example_str_num one_feature [''id''] =
     Inr \<lparr>normalized = [[Fin 0]], features = [''age'']\<rparr>"
  by (simp add: fl_small normalizeData_def one_feature_def select_features_def Object_keys_def
      read_prop_def normalize_row_def raw_value_def or0_def Math_min_def Math_max_def
      min2_def max2_def num_at_def js_sub_def js_eq_def)

text \<open>
  C4, at an input where the code departs from it. Two coinciding points in different
  clusters have \<open>a(i) = 0\<close> and \<open>b(i) = 0\<close>; the code guards only the case
  \<^verbatim>\<open>bI === Infinity\<close> and computes \<open>(0 - 0) / Math.max(0, 0)\<close>, so the silhouette of
  each point and the score are NaN, where the claim has 0 and a score in \<open>[-1, 1]\<close>.
\<close>

theorem silhouette_of_coinciding_points:
  "silhouette [[Fin 0, Fin 0], [Fin 0, Fin 0]] [0, 1] 0 = Inr NaN
   \<and> calculateSilhouetteScore [[Fin 0, Fin 0], [Fin 0, Fin 0]] [0, 1] = Inr NaN"
  by (simp add: sil_eval)

text \<open>
  C5, at an input where the code departs from it. Three equal records and \<open>k = 2\<close>, with a
  library that leaves cluster 1 without members: the summaries have the ids 0 and 1 and
  the counts 3 and 0, but each mean of the empty cluster is the sum 0 divided by the
  length 0, which is NaN, where the claim has a mean of 0.
\<close>

theorem empty_cluster_mean_is_NaN:
  "map_sum id clusterSummaries (performClustering example_str_num one_cluster three_alike 2) =
     Inr [\<lparr>clusterId = 0, count = 3,
            characteristics = [(''age'', Fin 20), (''spend'', Fin 100)],
            color = ''#3b82f6'', name = ''High-Value Customers''\<rparr>,
          \<lparr>clusterId = 1, count = 0,
            characteristics = [(''age'', NaN), (''spend'', NaN)],
            color = ''#10b981'', name = ''Budget-Conscious''\<rparr>]"
proof -
  let ?nd = "\<lparr>normalized = [[Fin 0, Fin 0], [Fin 0, Fin 0], [Fin 0, Fin 0]],
              features = [''age'', ''spend'']\<rparr>"
  let ?res = "\<lparr>km_clusters = [0, 0, 0], km_centroids = [[Fin 0, Fin 0], [Fin 0, Fin 0]]\<rparr>"
  have le: "2 \<le> length three_alike" by (simp add: three_alike_def)
  have km: "one_cluster (normalized ?nd) 2 = Inr ?res" by (simp add: one_cluster_three)
  from performClustering_returns [where km = one_cluster, OF three_alike_normalized le km]
  show ?thesis
    using three_alike_summaries [of "[[Fin 0, Fin 0], [Fin 0, Fin 0]]"] by auto
qed







text \<open>
  C9. When \<^verbatim>\<open>performClustering\<close> returns, there is one summary per cluster id
  \<open>0, \<dots>, k - 1\<close>, in this order, and the summary of cluster \<open>i\<close> carries the entries of the
  color and name catalogs at index \<open>i mod\<close> the catalog length, an index that is always in
  range. Both catalogs have eight entries.
\<close>

theorem cluster_names_and_colors:
  assumes "performClustering str_num km data k = Inr a"
  shows "length (clusterSummaries a) = k
       \<and> (\<forall>i < k. clusterId (clusterSummaries a ! i) = i
             \<and> i mod length CLUSTER_COLORS < length CLUSTER_COLORS
             \<and> i mod length CLUSTER_NAMES < length CLUSTER_NAMES
             \<and> color (clusterSummaries a ! i) = CLUSTER_COLORS ! (i mod length CLUSTER_COLORS)
             \<and> name (clusterSummaries a ! i) = CLUSTER_NAMES ! (i mod length CLUSTER_NAMES))
       \<and> 8 \<le> length CLUSTER_COLORS \<and> 8 \<le> length CLUSTER_NAMES"
proof -
  obtain feats results where
    "clusterSummaries a = map (cluster_summary str_num feats results) [0..<k]"
    using performClustering_Inr_iff [OF assms] by blast
  moreover have "length CLUSTER_COLORS = 8" "length CLUSTER_NAMES = 8"
    by (simp_all add: CLUSTER_COLORS_def CLUSTER_NAMES_def)
  ultimately show ?thesis
    by (simp add: cluster_summary_def Let_def)
qed

text \<open>
  The catalog theorem at three records and \<open>k = 2\<close>.
\<close>

theorem cluster_names_and_colors_witness:
  "\<exists>a. performClustering example_str_num grouped three_customers 2 = Inr a
      \<and> length (clusterSummaries a) = 2
      \<and> clusterId (clusterSummaries a ! 1) = 1
      \<and> color (clusterSummaries a ! 1) = ''#10b981''
      \<and> name (clusterSummaries a ! 1) = ''Budget-Conscious''"
proof -
  obtain a where a: "performClustering example_str_num grouped three_customers 2 = Inr a"
    using three_customers_2(1) by (cases "performClustering example_str_num grouped three_customers 2") auto
  from cluster_names_and_colors [OF a] a show ?thesis
    by (simp add: CLUSTER_COLORS_def CLUSTER_NAMES_def)
qed

text \<open>
  C10. \<^verbatim>\<open>findOptimalClusters\<close> always returns normally. The recorded scores are those
  of the candidates before the first one for which \<^verbatim>\<open>performClustering\<close> throws,
  whatever the exception, and with nothing recorded the result is \<open>k = 2\<close>.
\<close>

theorem findOptimalClusters_never_throws:
  "\<exists>r. findOptimalClusters str_num km data maxK = Inr r
     \<and> scores r =
         map (\<lambda>k. (k, silhouetteScore (projr (performClustering str_num km data k))))
           (takeWhile (\<lambda>k. \<not> isl (performClustering str_num km data k))
              [2..<Suc (min maxK (length data))])
     \<and> (scores r = [] \<longrightarrow> opt_k r = 2)"
  using findOptimalClusters_result [of str_num km data maxK]
  unfolding scan_candidates_prefix by blast

text \<open>
  The theorem with a library that throws at \<open>k = 3\<close> (the score of \<open>k = 2\<close> is kept) and
  with one that throws at once (the fallback).
\<close>

theorem findOptimalClusters_never_throws_witness:
  "(\<exists>r. findOptimalClusters example_str_num (throws_from 3) three_customers 8 = Inr r
       \<and> scores r = [(2, Fin (1/2))])
   \<and> (\<exists>r. findOptimalClusters example_str_num (throws_from 2) three_customers 8 = Inr r
       \<and> scores r = [] \<and> opt_k r = 2)"
proof -
  have ks: "[2..<Suc (min 8 (length three_customers))] = [2, 3]"
    by (simp add: length_three_customers upt_rec)
  have ok: "\<not> isl (performClustering example_str_num (throws_from 3) three_customers 2)"
    "silhouetteScore (projr (performClustering example_str_num (throws_from 3) three_customers 2)) = Fin (1/2)"
    using three_customers_halves [where km = "throws_from 3"]
    by (simp_all add: throws_from_def grouped_three)
  have t3: "isl (performClustering example_str_num (throws_from 3) three_customers 3)"
    using three_customers_throws [where km = "throws_from 3" and k = 3]
    by (simp add: throws_from_def)
  have t2: "isl (performClustering example_str_num (throws_from 2) three_customers 2)"
    using three_customers_throws [where km = "throws_from 2" and k = 2]
    by (simp add: throws_from_def)
  from findOptimalClusters_never_throws [of example_str_num "throws_from 3" three_customers 8]
       findOptimalClusters_never_throws [of example_str_num "throws_from 2" three_customers 8]
  show ?thesis
    unfolding ks by (auto simp: ok t3 t2)
qed

end
